theory Spec2Isabelle
  imports Complex_Main
begin

section \<open>JavaScript values\<close>

text \<open>
  A field of a JSON request body is absent (\<open>undefined\<close> after destructuring),
  \<open>null\<close>, or carries a value. Numbers are modelled as mathematical numbers:
  the rounding of IEEE doubles is not part of this development. Counters are
  natural numbers, the time-of-day components are integers, measurements are reals.
\<close>

datatype 'a js = Undefined | Null | Val 'a

text \<open>\<open>x || 0\<close> on a counter: every falsy value (absent, null, 0) gives 0.\<close>

definition or_zero :: "nat js \<Rightarrow> nat" where
  "or_zero v = (case v of Val n \<Rightarrow> n | _ \<Rightarrow> 0)"

text \<open>\<open>x || null\<close> on a measurement: the number 0 is falsy.\<close>

definition or_null :: "real js \<Rightarrow> real js" where
  "or_null v = (case v of Val x \<Rightarrow> (if x = 0 then Null else Val x) | _ \<Rightarrow> Null)"

text \<open>Truthiness of a string field: absent, null and the empty string are falsy.\<close>

definition truthy_str :: "string js \<Rightarrow> bool" where
  "truthy_str v = (case v of Val s \<Rightarrow> s \<noteq> [] | _ \<Rightarrow> False)"

subsection \<open>Rendering numbers\<close>

text \<open>
  Decimal digits of a natural number, as \<open>String(n)\<close> prints an integer below
  \<open>10^21\<close> (from there on JavaScript switches to exponent notation, which is
  outside this model).
\<close>

definition digit_char :: "nat \<Rightarrow> char" where
  "digit_char d = ''0123456789'' ! (d mod 10)"

fun digits :: "nat \<Rightarrow> string" where
  "digits n = (if n < 10 then [digit_char n] else digits (n div 10) @ [digit_char (n mod 10)])"

declare digits.simps [simp del]

definition string_of_int :: "int \<Rightarrow> string" where
  "string_of_int i = (if i < 0 then ''-'' @ digits (nat (- i)) else digits (nat i))"

text \<open>\<open>String(v)\<close> for a time-of-day component.\<close>

definition String :: "int js \<Rightarrow> string" where
  "String v = (case v of Undefined \<Rightarrow> ''undefined'' | Null \<Rightarrow> ''null''
     | Val i \<Rightarrow> string_of_int i)"

definition padStart :: "nat \<Rightarrow> char \<Rightarrow> string \<Rightarrow> string" where
  "padStart n c s = replicate (n - length s) c @ s"

text \<open>
  \<open>Number.prototype.toFixed(f)\<close> on a finite number of magnitude below \<open>10^21\<close>:
  \<open>n\<close> is the integer for which \<open>n / 10^f\<close> is closest to the magnitude, the larger
  one on a tie; its digits are padded to \<open>f + 1\<close> places and the point is put before
  the last \<open>f\<close> of them.
\<close>

definition nearest_scaled :: "nat \<Rightarrow> real \<Rightarrow> nat" where
  "nearest_scaled f a = nat \<lfloor>a * 10 ^ f + 1 / 2\<rfloor>"

definition fixed_string :: "nat \<Rightarrow> nat \<Rightarrow> string" where
  "fixed_string f n =
     (let m = digits n in
      if f = 0 then m
      else let m' = (if length m \<le> f then replicate (f + 1 - length m) CHR ''0'' @ m else m);
               k = length m'
           in take (k - f) m' @ ''.'' @ drop (k - f) m')"

definition toFixed :: "nat \<Rightarrow> real \<Rightarrow> string" where
  "toFixed f x = (if x < 0 then ''-'' else '''') @ fixed_string f (nearest_scaled f \<bar>x\<bar>)"

section \<open>Backend: position state, marks and the broadcast hub\<close>

subsection \<open>Data\<close>

text \<open>The body of \<open>POST /api/position\<close> (fields \<open>b_\<close>).\<close>

record position_body =
  b_latitude :: "real js"
  b_longitude :: "real js"
  b_altitude :: "real js"
  b_h_acc :: "real js"
  b_v_acc :: "real js"
  b_fix_type :: "int js"
  b_carr_soln :: "int js"
  b_num_sv :: "int js"
  b_rtcm_bytes :: "int js"
  b_fixed_count :: "nat js"
  b_float_count :: "nat js"
  b_battery_pct :: "real js"
  b_firmware_version :: "string js"
  b_hour :: "int js"
  b_min :: "int js"
  b_sec :: "int js"

text \<open>\<open>fixed_rate\<close> is the number 0 or the string made by \<open>toFixed(1)\<close>.\<close>

datatype rate = RateNum real | RateStr string

text \<open>The global \<open>roverState\<close> (fields \<open>rs_\<close>).\<close>

record roverState =
  rs_latitude :: "real js"
  rs_longitude :: "real js"
  rs_altitude :: "real js"
  rs_h_acc :: "real js"
  rs_v_acc :: "real js"
  rs_fix_type :: "int js"
  rs_carr_soln :: "int js"
  rs_num_sv :: "int js"
  rs_rtcm_bytes :: "int js"
  rs_fixed_count :: "nat js"
  rs_float_count :: "nat js"
  rs_fixed_rate :: "rate js"
  rs_battery_pct :: "real js"
  rs_firmware_version :: "string js"
  rs_timestamp :: "string js"
  rs_last_update :: "string js"

text \<open>A stored mark (fields \<open>mk_\<close>) and the body of \<open>POST /api/marks\<close> (fields \<open>mb_\<close>).\<close>

record mark =
  mk_id :: int
  mk_label :: string
  mk_latitude :: "real js"
  mk_longitude :: "real js"
  mk_h_acc :: "real js"
  mk_timestamp :: string
  mk_created_at :: int

record mark_body =
  mb_latitude :: "real js"
  mb_longitude :: "real js"
  mb_h_acc :: "real js"
  mb_label :: "string js"

text \<open>
  A WebSocket connection is known by its handle. The set \<open>clients\<close> keeps
  insertion order, which is the order \<open>forEach\<close> visits. \<open>disk\<close> is the content of
  \<open>marks.json\<close>, if the file exists.
\<close>

type_synonym conn = nat

record server =
  roverState :: roverState
  marks :: "mark list"
  markCounter :: int
  clients :: "conn list"
  disk :: "(mark list \<times> int) option"

text \<open>
  What a handler reads from its environment: the clock (\<open>new Date().toISOString()\<close> and
  \<open>Date.now()\<close>), whether \<open>fs.writeFileSync\<close> succeeds, and the \<open>readyState\<close> of
  every connection at that moment.
\<close>

record env =
  iso_now :: string
  ms_now :: int
  write_ok :: bool
  readyState :: "conn \<Rightarrow> nat"

datatype message =
    PositionMsg roverState
  | MarksMsg "mark list"
  | MarkCreate mark
  | MarkDelete int
  | MarkUpdate mark
  | MarkClear

datatype response =
    Success
  | SuccessDeleted nat
  | MarkJson mark
  | PositionJson roverState
  | BadRequest
  | NotFound
  | TypeError

type_synonym sends = "(conn \<times> message) list"

subsection \<open>Startup\<close>

definition initial_roverState :: roverState where
  "initial_roverState =
     \<lparr>rs_latitude = Null, rs_longitude = Null, rs_altitude = Null, rs_h_acc = Null,
      rs_v_acc = Null, rs_fix_type = Null, rs_carr_soln = Null, rs_num_sv = Null,
      rs_rtcm_bytes = Null, rs_fixed_count = Null, rs_float_count = Null,
      rs_fixed_rate = Null, rs_battery_pct = Null, rs_firmware_version = Null,
      rs_timestamp = Null, rs_last_update = Null\<rparr>"

text \<open>\<open>loadMarks\<close>: the registry starts from the file when there is one.\<close>

definition loadMarks :: "(mark list \<times> int) option \<Rightarrow> server" where
  "loadMarks d =
     \<lparr>roverState = initial_roverState,
      marks = (case d of Some (ms, c) \<Rightarrow> ms | None \<Rightarrow> []),
      markCounter = (case d of Some (ms, c) \<Rightarrow> c | None \<Rightarrow> 0),
      clients = [],
      disk = d\<rparr>"

definition saveMarks :: "env \<Rightarrow> server \<Rightarrow> server" where
  "saveMarks e s = (if write_ok e then s\<lparr>disk := Some (marks s, markCounter s)\<rparr> else s)"

subsection \<open>Broadcast hub\<close>

definition broadcast :: "env \<Rightarrow> message \<Rightarrow> server \<Rightarrow> sends" where
  "broadcast e msg s = map (\<lambda>c. (c, msg)) (filter (\<lambda>c. readyState e c = 1) (clients s))"

definition set_add :: "conn \<Rightarrow> conn list \<Rightarrow> conn list" where
  "set_add ws cs = (if ws \<in> set cs then cs else cs @ [ws])"

definition on_connection :: "conn \<Rightarrow> server \<Rightarrow> server \<times> sends" where
  "on_connection ws s =
     (s\<lparr>clients := set_add ws (clients s)\<rparr>,
      (if rs_latitude (roverState s) \<noteq> Null then [(ws, PositionMsg (roverState s))] else []) @
      (if 0 < length (marks s) then [(ws, MarksMsg (marks s))] else []))"

definition on_close :: "conn \<Rightarrow> server \<Rightarrow> server" where
  "on_close ws s = s\<lparr>clients := removeAll ws (clients s)\<rparr>"

subsection \<open>Position state store\<close>

definition fixed_rate :: "nat js \<Rightarrow> nat js \<Rightarrow> rate" where
  "fixed_rate fixed_count float_count =
     (let total = or_zero fixed_count + or_zero float_count in
      if 0 < total then
        (case fixed_count of
           Undefined \<Rightarrow> RateStr ''NaN''
         | Null \<Rightarrow> RateStr (toFixed 1 (100 * 0 / real total))
         | Val n \<Rightarrow> RateStr (toFixed 1 (100 * real n / real total)))
      else RateNum 0)"

definition timestamp :: "int js \<Rightarrow> int js \<Rightarrow> int js \<Rightarrow> string" where
  "timestamp hour minute sec =
     padStart 2 CHR ''0'' (String hour) @ '':'' @ padStart 2 CHR ''0'' (String minute) @ '':'' @
     padStart 2 CHR ''0'' (String sec) @ '' UTC''"

definition post_position :: "env \<Rightarrow> position_body \<Rightarrow> server \<Rightarrow> server \<times> response \<times> sends" where
  "post_position e b s =
     (let st = \<lparr>rs_latitude = b_latitude b, rs_longitude = b_longitude b,
                rs_altitude = b_altitude b, rs_h_acc = b_h_acc b, rs_v_acc = b_v_acc b,
                rs_fix_type = b_fix_type b, rs_carr_soln = b_carr_soln b,
                rs_num_sv = b_num_sv b, rs_rtcm_bytes = b_rtcm_bytes b,
                rs_fixed_count = b_fixed_count b, rs_float_count = b_float_count b,
                rs_fixed_rate = Val (fixed_rate (b_fixed_count b) (b_float_count b)),
                rs_battery_pct = b_battery_pct b,
                rs_firmware_version = b_firmware_version b,
                rs_timestamp = Val (timestamp (b_hour b) (b_min b) (b_sec b)),
                rs_last_update = Val (iso_now e)\<rparr>;
          s' = s\<lparr>roverState := st\<rparr>
      in (s', Success, broadcast e (PositionMsg st) s'))"

definition get_position :: "server \<Rightarrow> response" where
  "get_position s = PositionJson (roverState s)"

subsection \<open>Mark registry\<close>

text \<open>
  \<open>POST /api/marks\<close> up to \<open>saveMarks()\<close>: the validation, the counter, the new mark.
\<close>

definition create_mark :: "env \<Rightarrow> mark_body \<Rightarrow> server \<Rightarrow> (mark \<times> server) option" where
  "create_mark e b s =
     (if mb_latitude b = Undefined \<or> mb_longitude b = Undefined then None
      else let c = markCounter s + 1;
               m = \<lparr>mk_id = c,
                    mk_label = (if truthy_str (mb_label b)
                                then (case mb_label b of Val l \<Rightarrow> l | _ \<Rightarrow> [])
                                else ''RM_'' @ string_of_int c),
                    mk_latitude = mb_latitude b,
                    mk_longitude = mb_longitude b,
                    mk_h_acc = or_null (mb_h_acc b),
                    mk_timestamp = iso_now e,
                    mk_created_at = ms_now e\<rparr>
           in Some (m, saveMarks e (s\<lparr>markCounter := c, marks := marks s @ [m]\<rparr>)))"

text \<open>
  The log line calls \<open>latitude.toFixed(9)\<close> and \<open>longitude.toFixed(9)\<close>, which throw on
  \<open>null\<close>: the mark is stored and saved by then, nothing is broadcast.
\<close>

definition post_marks :: "env \<Rightarrow> mark_body \<Rightarrow> server \<Rightarrow> server \<times> response \<times> sends" where
  "post_marks e b s =
     (case create_mark e b s of
        None \<Rightarrow> (s, BadRequest, [])
      | Some (m, s') \<Rightarrow>
          (if mb_latitude b = Null \<or> mb_longitude b = Null then (s', TypeError, [])
           else (s', MarkJson m, broadcast e (MarkCreate m) s')))"

text \<open>\<open>marks.findIndex\<close> and \<open>splice(index, 1)\<close>: the first mark with the id goes.\<close>

fun remove_first :: "int \<Rightarrow> mark list \<Rightarrow> mark list" where
  "remove_first i [] = []"
| "remove_first i (m # ms) = (if mk_id m = i then ms else m # remove_first i ms)"

text \<open>\<open>marks.find\<close>, then the assignment to the label of the mark found.\<close>

fun relabel_first :: "int \<Rightarrow> string \<Rightarrow> mark list \<Rightarrow> mark list" where
  "relabel_first i l [] = []"
| "relabel_first i l (m # ms) =
     (if mk_id m = i then m\<lparr>mk_label := l\<rparr> # ms else m # relabel_first i l ms)"

text \<open>The id of the route is \<open>parseInt(req.params.id)\<close>: an integer, or \<open>NaN\<close> (\<open>None\<close>).\<close>

definition delete_mark :: "env \<Rightarrow> int option \<Rightarrow> server \<Rightarrow> server \<times> response \<times> sends" where
  "delete_mark e pid s =
     (case pid of
        None \<Rightarrow> (s, NotFound, [])
      | Some i \<Rightarrow>
          (case find (\<lambda>m. mk_id m = i) (marks s) of
             None \<Rightarrow> (s, NotFound, [])
           | Some d \<Rightarrow>
               (let s' = saveMarks e (s\<lparr>marks := remove_first i (marks s)\<rparr>)
                in (s', Success, broadcast e (MarkDelete i) s'))))"

definition patch_mark ::
    "env \<Rightarrow> int option \<Rightarrow> string js \<Rightarrow> server \<Rightarrow> server \<times> response \<times> sends" where
  "patch_mark e pid label s =
     (case pid of
        None \<Rightarrow> (s, NotFound, [])
      | Some i \<Rightarrow>
          (case find (\<lambda>m. mk_id m = i) (marks s) of
             None \<Rightarrow> (s, NotFound, [])
           | Some m \<Rightarrow>
               (let m' = (if truthy_str label
                          then m\<lparr>mk_label := (case label of Val l \<Rightarrow> l | _ \<Rightarrow> [])\<rparr> else m);
                    ms' = (if truthy_str label
                           then relabel_first i (case label of Val l \<Rightarrow> l | _ \<Rightarrow> []) (marks s)
                           else marks s);
                    s' = saveMarks e (s\<lparr>marks := ms'\<rparr>)
                in (s', MarkJson m', broadcast e (MarkUpdate m') s'))))"

definition clear_marks :: "env \<Rightarrow> server \<Rightarrow> server \<times> response \<times> sends" where
  "clear_marks e s =
     (let count = length (marks s);
          s' = saveMarks e (s\<lparr>marks := [], markCounter := 0\<rparr>)
      in (s', SuccessDeleted count, broadcast e MarkClear s'))"

subsection \<open>The server as a transition system\<close>

datatype request =
    PostPosition position_body
  | PostMark mark_body
  | DeleteMark "int option"
  | PatchMark "int option" "string js"
  | ClearMarks
  | Connect conn
  | Close conn

fun handle :: "env \<Rightarrow> request \<Rightarrow> server \<Rightarrow> server \<times> response \<times> sends" where
  "handle e (PostPosition b) s = post_position e b s"
| "handle e (PostMark b) s = post_marks e b s"
| "handle e (DeleteMark pid) s = delete_mark e pid s"
| "handle e (PatchMark pid l) s = patch_mark e pid l s"
| "handle e ClearMarks s = clear_marks e s"
| "handle e (Connect ws) s = (case on_connection ws s of (s', out) \<Rightarrow> (s', Success, out))"
| "handle e (Close ws) s = (on_close ws s, Success, [])"

fun run :: "(env \<times> request) list \<Rightarrow> server \<Rightarrow> server" where
  "run [] s = s"
| "run ((e, r) # rs) s = run rs (fst (handle e r s))"

text \<open>The ids given out along a run, in order.\<close>

fun issued_ids :: "(env \<times> request) list \<Rightarrow> server \<Rightarrow> int list" where
  "issued_ids [] s = []"
| "issued_ids ((e, r) # rs) s =
     (case r of
        PostMark b \<Rightarrow> (case create_mark e b s of Some (m, s') \<Rightarrow> [mk_id m] | None \<Rightarrow> [])
      | _ \<Rightarrow> []) @ issued_ids rs (fst (handle e r s))"

section \<open>Frontend: geometry engine and trail recorder\<close>

subsection \<open>Geometry engine\<close>

text \<open>
  \<open>DREDGE_CONFIG\<close>, in feet. The local origin \<open>(0,0)\<close> is the stern-port corner of
  the hull; the antenna sits at \<open>(22, 30)\<close>.
\<close>

definition hull_width :: real where "hull_width = 32"
definition hull_length :: real where "hull_length = 40"
definition antenna_x :: real where "antenna_x = 22"
definition antenna_y :: real where "antenna_y = 30"
definition nozzle_offsetFromHull :: real where "nozzle_offsetFromHull = 1.5"
definition nozzle_pivotY :: real where "nozzle_pivotY = 10"
definition nozzle_length :: real where "nozzle_length = 50"
definition nozzle_diameter :: real where "nozzle_diameter = 16 / 12"
definition tailings_width :: real where "tailings_width = 20"
definition tailings_length :: real where "tailings_length = 6"
definition tailings_offsetY :: real where "tailings_offsetY = - 6"

definition feetToMeters :: "real \<Rightarrow> real" where
  "feetToMeters feet = feet * 0.3048"

text \<open>The result is the pair \<open>[lon, lat]\<close>.\<close>

definition localToWorld :: "real \<Rightarrow> real \<Rightarrow> real \<Rightarrow> real \<Rightarrow> real \<Rightarrow> real \<times> real" where
  "localToWorld localX localY antennaLat antennaLon hdg =
     (let offsetX = localX - antenna_x;
          offsetY = localY - antenna_y;
          offsetXm = feetToMeters offsetX;
          offsetYm = feetToMeters offsetY;
          headingRad = (hdg * pi) / 180;
          rotatedX = offsetXm * cos headingRad + offsetYm * sin headingRad;
          rotatedY = - offsetXm * sin headingRad + offsetYm * cos headingRad;
          earthRadius = 6371000;
          dLat = (rotatedY / earthRadius) * (180 / pi);
          dLon = (rotatedX / earthRadius) * (180 / pi) / cos (antennaLat * pi / 180)
      in (antennaLon + dLon, antennaLat + dLat))"

definition getSuctionTipPosition :: "real \<Rightarrow> real \<Rightarrow> real \<Rightarrow> real \<times> real" where
  "getSuctionTipPosition antennaLat antennaLon hdg =
     (let tipX = hull_width + nozzle_offsetFromHull + (nozzle_diameter / 2);
          tipY = nozzle_pivotY + nozzle_length
      in localToWorld tipX tipY antennaLat antennaLon hdg)"

text \<open>The tailings feature is kept as its coordinate ring, closed by its first vertex.\<close>

definition generateTailingsZoneGeoJSON :: "real \<Rightarrow> real \<Rightarrow> real \<Rightarrow> (real \<times> real) list" where
  "generateTailingsZoneGeoJSON antennaLat antennaLon hdg =
     (let hullCenterX = hull_width / 2;
          halfWidth = tailings_width / 2;
          corners = [(hullCenterX - halfWidth, tailings_offsetY),
                     (hullCenterX + halfWidth, tailings_offsetY),
                     (hullCenterX + halfWidth, tailings_offsetY + tailings_length),
                     (hullCenterX - halfWidth, tailings_offsetY + tailings_length)];
          worldCoords = map (\<lambda>(x, y). localToWorld x y antennaLat antennaLon hdg) corners
      in worldCoords @ [hd worldCoords])"

text \<open>\<open>Math.atan2(y, x)\<close>.\<close>

definition atan2 :: "real \<Rightarrow> real \<Rightarrow> real" where
  "atan2 y x =
     (if 0 < x then arctan (y / x)
      else if x < 0 then (if 0 \<le> y then arctan (y / x) + pi else arctan (y / x) - pi)
      else if 0 < y then pi / 2
      else if y < 0 then - (pi / 2)
      else 0)"

text \<open>
  The haversine distance in metres. \<open>Math.sqrt\<close> of a negative number is \<open>NaN\<close>, and so
  is the result then: that is \<open>None\<close>.
\<close>

definition haversineDistance :: "real \<Rightarrow> real \<Rightarrow> real \<Rightarrow> real \<Rightarrow> real option" where
  "haversineDistance lat1 lon1 lat2 lon2 =
     (let R = 6371000;
          dLat = (lat2 - lat1) * pi / 180;
          dLon = (lon2 - lon1) * pi / 180;
          a = sin (dLat / 2) * sin (dLat / 2) +
              cos (lat1 * pi / 180) * cos (lat2 * pi / 180) * sin (dLon / 2) * sin (dLon / 2)
      in if a < 0 \<or> 1 - a < 0 then None
         else Some (R * 2 * atan2 (sqrt a) (sqrt (1 - a))))"

subsection \<open>Trail recorder\<close>

record position =
  latitude :: real
  longitude :: real

record trails =
  piloting :: "(real \<times> real) list"
  suction :: "(real \<times> real) list"
  tailings :: "(real \<times> real) list list"

datatype locationMode = Live | Nome

record dashboard =
  currentPosition :: "position option"
  heading :: real
  locationMode :: locationMode
  testPosition :: "position option"
  trails :: trails
  minTrailDistance :: real

definition no_trails :: trails where
  "no_trails = \<lparr>piloting = [], suction = [], tailings = []\<rparr>"

text \<open>
  The constructor, with \<open>loadTrailsFromStorage\<close>: the trails saved in local storage,
  if any, replace the empty ones.
\<close>

definition new_dashboard :: "trails option \<Rightarrow> dashboard" where
  "new_dashboard saved =
     \<lparr>currentPosition = None, heading = 0, locationMode = Live, testPosition = None,
      trails = (case saved of Some t \<Rightarrow> t | None \<Rightarrow> no_trails),
      minTrailDistance = 0.5\<rparr>"

text \<open>A comparison with \<open>NaN\<close> is false.\<close>

definition too_close :: "position \<Rightarrow> position \<Rightarrow> real \<Rightarrow> bool" where
  "too_close prevPos cur minDist =
     (case haversineDistance (latitude prevPos) (longitude prevPos) (latitude cur) (longitude cur)
      of None \<Rightarrow> False | Some distance \<Rightarrow> distance < minDist)"

definition recordTrailPoint :: "position option \<Rightarrow> dashboard \<Rightarrow> dashboard" where
  "recordTrailPoint prevPos st =
     (case currentPosition st of
        None \<Rightarrow> st
      | Some cur \<Rightarrow>
          (if (case prevPos of None \<Rightarrow> False | Some p \<Rightarrow> too_close p cur (minTrailDistance st))
           then st
           else st\<lparr>trails :=
                  \<lparr>piloting = piloting (trails st) @ [(longitude cur, latitude cur)],
                   suction = suction (trails st) @
                     [getSuctionTipPosition (latitude cur) (longitude cur) (heading st)],
                   tailings = tailings (trails st) @
                     [generateTailingsZoneGeoJSON (latitude cur) (longitude cur) (heading st)]\<rparr>\<rparr>))"

text \<open>
  \<open>updateDashboard(data)\<close> on the data of a position message, as far as it touches the
  position and the trails. \<open>None\<close> is a \<open>TypeError\<close>: \<open>toFixed\<close> called on an absent
  latitude, longitude or altitude, or a position read from a null \<open>currentPosition\<close>;
  every such throw comes before the first assignment.
\<close>

definition updateDashboard :: "roverState \<Rightarrow> dashboard \<Rightarrow> dashboard option" where
  "updateDashboard data st =
     (if rs_latitude data \<noteq> Null \<and> rs_longitude data \<noteq> Null then
        (case (rs_latitude data, rs_longitude data) of
           (Val la, Val lo) \<Rightarrow>
             (if rs_altitude data = Undefined then None
              else let prevPos = currentPosition st;
                       st1 = (if locationMode st = Live
                              then st\<lparr>currentPosition := Some \<lparr>latitude = la, longitude = lo\<rparr>\<rparr>
                              else st)
                   in (case currentPosition st1 of
                         None \<Rightarrow> None
                       | Some c \<Rightarrow>
                           Some (if rs_carr_soln data = Val 2 \<and> locationMode st1 = Live
                                 then recordTrailPoint prevPos st1 else st1)))
         | _ \<Rightarrow> None)
      else Some st)"

definition clearTrails :: "dashboard \<Rightarrow> dashboard" where
  "clearTrails st = st\<lparr>trails := \<lparr>piloting = [], suction = [], tailings = []\<rparr>\<rparr>"

text \<open>\<open>CONFIG.LOCATIONS.nome.center\<close> is \<open>[-165.402452, 64.495336]\<close>.\<close>

definition location_change :: "locationMode \<Rightarrow> dashboard \<Rightarrow> dashboard" where
  "location_change m st =
     (case m of
        Nome \<Rightarrow> st\<lparr>locationMode := Nome,
                  testPosition := Some \<lparr>latitude = 64.495336, longitude = - 165.402452\<rparr>,
                  currentPosition := Some \<lparr>latitude = 64.495336, longitude = - 165.402452\<rparr>\<rparr>
      | Live \<Rightarrow> st\<lparr>locationMode := Live, testPosition := None\<rparr>)"

text \<open>
  What the page reacts to: a position message on the socket (a throwing handler leaves
  the state as it was), the heading slider, the location selector, the confirmed
  clear button.
\<close>

datatype event =
    PositionMessage roverState
  | HeadingInput real
  | LocationChange locationMode
  | ClearTrails

fun react :: "event \<Rightarrow> dashboard \<Rightarrow> dashboard" where
  "react (PositionMessage data) st = (case updateDashboard data st of None \<Rightarrow> st | Some st' \<Rightarrow> st')"
| "react (HeadingInput h) st = st\<lparr>heading := h\<rparr>"
| "react (LocationChange m) st = location_change m st"
| "react ClearTrails st = clearTrails st"

fun replay :: "event list \<Rightarrow> dashboard \<Rightarrow> dashboard" where
  "replay [] st = st"
| "replay (ev # evs) st = replay evs (react ev st)"

text \<open>The three trail sequences have the same length.\<close>

definition balanced :: "dashboard \<Rightarrow> bool" where
  "balanced st \<longleftrightarrow> length (piloting (trails st)) = length (suction (trails st)) \<and>
                   length (suction (trails st)) = length (tailings (trails st))"

section \<open>Concrete inputs\<close>

definition env0 :: env where
  "env0 = \<lparr>iso_now = ''2026-01-29T01:07:02.624Z'', ms_now = 1769648822624, write_ok = True,
           readyState = (\<lambda>c. if c = 2 then 3 else 1)\<rparr>"

definition absent_body :: position_body where
  "absent_body = \<lparr>b_latitude = Undefined, b_longitude = Undefined, b_altitude = Undefined,
     b_h_acc = Undefined, b_v_acc = Undefined, b_fix_type = Undefined, b_carr_soln = Undefined,
     b_num_sv = Undefined, b_rtcm_bytes = Undefined, b_fixed_count = Undefined,
     b_float_count = Undefined, b_battery_pct = Undefined, b_firmware_version = Undefined,
     b_hour = Undefined, b_min = Undefined, b_sec = Undefined\<rparr>"

definition scenario_fix :: position_body where
  "scenario_fix = absent_body\<lparr>b_latitude := Val 45, b_longitude := Val (-122),
     b_carr_soln := Val 2, b_fixed_count := Val 10, b_float_count := Val 0,
     b_hour := Val 1, b_min := Val 0, b_sec := Val 0\<rparr>"

definition body_at :: "real \<Rightarrow> real \<Rightarrow> mark_body" where
  "body_at la lo = \<lparr>mb_latitude = Val la, mb_longitude = Val lo, mb_h_acc = Undefined,
                     mb_label = Undefined\<rparr>"

definition survey_run :: "(env \<times> request) list" where
  "survey_run = [(env0, PostMark (body_at 45.1 (-122.1))), (env0, PostMark (body_at 45.2 (-122.2))),
                 (env0, PostMark (body_at 45.3 (-122.3))), (env0, DeleteMark (Some 2)),
                 (env0, PostMark (body_at 45.4 (-122.4)))]"

text \<open>A position message of an RTK-fixed fix at a latitude, on the meridian 122 W.\<close>

definition rtk_fix :: "real \<Rightarrow> roverState" where
  "rtk_fix la = initial_roverState\<lparr>rs_latitude := Val la, rs_longitude := Val (-122),
     rs_altitude := Val 130.5, rs_fix_type := Val 3, rs_carr_soln := Val 2\<rparr>"


definition zero_acc_body :: mark_body where
  "zero_acc_body = \<lparr>mb_latitude = Val 45.1, mb_longitude = Val (-122.1), mb_h_acc = Val 0,
                     mb_label = Undefined\<rparr>"

text \<open>A fix sent before the receiver has a position: the measurements are \<open>null\<close>.\<close>

definition null_fix :: position_body where
  "null_fix = absent_body\<lparr>b_latitude := Null, b_longitude := Null, b_altitude := Null,
     b_h_acc := Null, b_v_acc := Null, b_fix_type := Val 0, b_carr_soln := Val 0,
     b_num_sv := Val 0, b_fixed_count := Val 0, b_float_count := Val 0,
     b_hour := Val 1, b_min := Val 0, b_sec := Val 0\<rparr>"

text \<open>Three observers; in \<open>env0\<close> the second one is closed (\<open>readyState\<close> 3).\<close>

definition three_clients :: server where
  "three_clients = run [(env0, Connect 1), (env0, Connect 2), (env0, Connect 3)] (loadMarks None)"

text \<open>
  Fixes a third of a metre apart: \<open>creep\<close> moves north in two steps, \<open>sway\<close> goes north and
  then south of the first fix.
\<close>

definition creep :: "event list" where
  "creep = [PositionMessage (rtk_fix 45), PositionMessage (rtk_fix 45.000003),
            PositionMessage (rtk_fix 45.000006)]"

definition sway :: "event list" where
  "sway = [PositionMessage (rtk_fix 45), PositionMessage (rtk_fix 45.000003),
           PositionMessage (rtk_fix 44.999997)]"

definition session :: "event list" where
  "session = [PositionMessage (rtk_fix 45), HeadingInput 90, PositionMessage (rtk_fix 45.000003),
              PositionMessage (rtk_fix 45.1), LocationChange Nome, PositionMessage (rtk_fix 45.2),
              ClearTrails, LocationChange Live, PositionMessage (rtk_fix 45.3)]"

section \<open>Position state store\<close>




text \<open>
  C5. Ingest always succeeds. The new state record is made of the fields of the
  incoming fix, the two derived fields and the receipt time only: it is the same
  whatever the state was before, so nothing of the previous record survives and no
  comparison with it can reject a fix. A field the fix does not carry stays absent in
  the state; it is not turned into 0.
\<close>

theorem ingest_total_last_write_wins:
  "fst (snd (post_position e b s)) = Success \<and>
   roverState (fst (post_position e b s)) = roverState (fst (post_position e b s2)) \<and>
   get_position (fst (post_position e b s)) = PositionJson (roverState (fst (post_position e b s))) \<and>
   rs_latitude (roverState (fst (post_position e b s))) = b_latitude b \<and>
   rs_longitude (roverState (fst (post_position e b s))) = b_longitude b \<and>
   rs_altitude (roverState (fst (post_position e b s))) = b_altitude b \<and>
   rs_h_acc (roverState (fst (post_position e b s))) = b_h_acc b \<and>
   rs_v_acc (roverState (fst (post_position e b s))) = b_v_acc b \<and>
   rs_fix_type (roverState (fst (post_position e b s))) = b_fix_type b \<and>
   rs_carr_soln (roverState (fst (post_position e b s))) = b_carr_soln b \<and>
   rs_num_sv (roverState (fst (post_position e b s))) = b_num_sv b \<and>
   rs_rtcm_bytes (roverState (fst (post_position e b s))) = b_rtcm_bytes b \<and>
   rs_fixed_count (roverState (fst (post_position e b s))) = b_fixed_count b \<and>
   rs_float_count (roverState (fst (post_position e b s))) = b_float_count b \<and>
   rs_battery_pct (roverState (fst (post_position e b s))) = b_battery_pct b \<and>
   rs_firmware_version (roverState (fst (post_position e b s))) = b_firmware_version b \<and>
   rs_fixed_rate (roverState (fst (post_position e b s))) =
     Val (fixed_rate (b_fixed_count b) (b_float_count b)) \<and>
   rs_timestamp (roverState (fst (post_position e b s))) =
     Val (timestamp (b_hour b) (b_min b) (b_sec b)) \<and>
   rs_last_update (roverState (fst (post_position e b s))) = Val (iso_now e) \<and>
   rs_altitude (roverState (fst (post_position e absent_body s))) = Undefined \<and>
   rs_h_acc (roverState (fst (post_position e absent_body s))) = Undefined \<and>
   rs_v_acc (roverState (fst (post_position e absent_body s))) = Undefined \<and>
   rs_num_sv (roverState (fst (post_position e absent_body s))) = Undefined \<and>
   rs_rtcm_bytes (roverState (fst (post_position e absent_body s))) = Undefined \<and>
   rs_battery_pct (roverState (fst (post_position e absent_body s))) = Undefined"
  by (simp add: post_position_def get_position_def absent_body_def Let_def)

section \<open>Mark registry\<close>

lemma markCounter_saveMarks [simp]: "markCounter (saveMarks e s) = markCounter s"
  by (simp add: saveMarks_def)

lemma marks_saveMarks [simp]: "marks (saveMarks e s) = marks s"
  by (simp add: saveMarks_def)

lemma clients_saveMarks [simp]: "clients (saveMarks e s) = clients s"
  by (simp add: saveMarks_def)

lemma roverState_saveMarks [simp]: "roverState (saveMarks e s) = roverState s"
  by (simp add: saveMarks_def)

lemma broadcast_saveMarks [simp]: "broadcast e msg (saveMarks e' s) = broadcast e msg s"
  by (simp add: broadcast_def)

lemma create_mark_Some:
  "create_mark e b s = Some (m, s') \<Longrightarrow>
     mk_id m = markCounter s + 1 \<and> markCounter s' = markCounter s + 1 \<and> marks s' = marks s @ [m]"
  by (auto simp: create_mark_def Let_def split: if_splits)

lemma create_mark_None:
  "create_mark e b s = None \<longleftrightarrow> mb_latitude b = Undefined \<or> mb_longitude b = Undefined"
  by (simp add: create_mark_def Let_def)

text \<open>Apart from the clear, a request moves the counter by one when it creates a mark.\<close>

lemma handle_counter:
  "r \<noteq> ClearMarks \<Longrightarrow>
     markCounter (fst (handle e r s)) =
       markCounter s + (case r of PostMark b \<Rightarrow> (if create_mark e b s = None then 0 else 1) | _ \<Rightarrow> 0)"
proof (cases r)
  case (PostMark b)
  then show ?thesis
    by (cases "create_mark e b s")
       (auto simp: post_marks_def dest: create_mark_Some)
next
  case (DeleteMark pid)
  then show ?thesis
    by (simp add: delete_mark_def Let_def split: option.split)
next
  case (PatchMark pid l)
  then show ?thesis
    by (simp add: patch_mark_def Let_def split: option.split)
qed (simp_all add: post_position_def on_connection_def on_close_def Let_def)

lemma issued_ids_bounds:
  "ClearMarks \<notin> snd ` set rs \<Longrightarrow>
     sorted_wrt (<) (issued_ids rs s) \<and> (\<forall>i\<in>set (issued_ids rs s). markCounter s < i)"
proof (induction rs arbitrary: s)
  case Nil
  then show ?case by simp
next
  case (Cons er rs)
  obtain e r where er: "er = (e, r)" by (cases er)
  from Cons.prems er have r: "r \<noteq> ClearMarks" and rest: "ClearMarks \<notin> snd ` set rs"
    by auto
  let ?s' = "fst (handle e r s)"
  from Cons.IH [OF rest, of ?s']
  have srt: "sorted_wrt (<) (issued_ids rs ?s')"
    and gt: "\<forall>i\<in>set (issued_ids rs ?s'). markCounter ?s' < i" by simp_all
  show ?case
  proof (cases "\<exists>b. r = PostMark b \<and> create_mark e b s \<noteq> None")
    case True
    then obtain b m s1 where b: "r = PostMark b" and c: "create_mark e b s = Some (m, s1)"
      by auto
    from create_mark_Some [OF c] have id: "mk_id m = markCounter s + 1" by simp
    from handle_counter [OF r, of e s] b c
    have cnt: "markCounter ?s' = markCounter s + 1" by simp
    have iss: "issued_ids (er # rs) s = mk_id m # issued_ids rs ?s'"
      using er b c by simp
    show ?thesis using srt gt id cnt by (auto simp: iss)
  next
    case False
    then have none: "(case r of PostMark b \<Rightarrow>
        (case create_mark e b s of Some (m, s') \<Rightarrow> [mk_id m] | None \<Rightarrow> []) | _ \<Rightarrow> []) = []"
      by (cases r) (auto split: option.split)
    from handle_counter [OF r, of e s] False
    have cnt: "markCounter ?s' = markCounter s" by (cases r) auto
    have iss: "issued_ids (er # rs) s = issued_ids rs ?s'"
      using er none by simp
    show ?thesis using srt gt cnt by (simp add: iss)
  qed
qed

text \<open>
  C3. Along any sequence of requests without a clear (creations, deletions, renames,
  position updates, connections), the ids given out are strictly increasing and all
  above the counter the sequence started from, so no id given out before comes back,
  whatever was deleted in between. The clear empties the registry and puts the counter
  back to 0: the mark created right after it gets the id 1.
\<close>

theorem mark_ids_monotonic:
  "(ClearMarks \<notin> snd ` set rs \<longrightarrow>
      sorted_wrt (<) (issued_ids rs s) \<and> (\<forall>i\<in>set (issued_ids rs s). markCounter s < i)) \<and>
   markCounter (fst (handle e ClearMarks s)) = 0 \<and>
   marks (fst (handle e ClearMarks s)) = [] \<and>
   (mb_latitude b \<noteq> Undefined \<and> mb_longitude b \<noteq> Undefined \<longrightarrow>
      issued_ids [(e, ClearMarks), (e', PostMark b)] s = [1])"
proof -
  have clr: "markCounter (fst (handle e ClearMarks s)) = 0" "marks (fst (handle e ClearMarks s)) = []"
    by (simp_all add: clear_marks_def Let_def)
  have nxt: "issued_ids [(e, ClearMarks), (e', PostMark b)] s = [1]"
    if "mb_latitude b \<noteq> Undefined \<and> mb_longitude b \<noteq> Undefined"
    using that by (simp add: clear_marks_def create_mark_def Let_def)
  show ?thesis using issued_ids_bounds [of rs s] clr nxt by blast
qed

text \<open>
  Three marks, the second deleted, a fourth created: the ids are 1, 2, 3, 4; after a
  clear the next id is 1 again.
\<close>

theorem mark_ids_monotonic_witness:
  "ClearMarks \<notin> snd ` set survey_run \<and>
   mb_latitude (body_at 45.1 (-122.1)) \<noteq> Undefined \<and>
   mb_longitude (body_at 45.1 (-122.1)) \<noteq> Undefined \<and>
   issued_ids survey_run (loadMarks None) = [1, 2, 3, 4] \<and>
   sorted_wrt (<) (issued_ids survey_run (loadMarks None)) \<and>
   issued_ids [(env0, ClearMarks), (env0, PostMark (body_at 45.1 (-122.1)))]
     (run survey_run (loadMarks None)) = [1]"
proof -
  have h: "ClearMarks \<notin> snd ` set survey_run" by (simp add: survey_run_def)
  have b: "mb_latitude (body_at 45.1 (-122.1)) \<noteq> Undefined \<and>
           mb_longitude (body_at 45.1 (-122.1)) \<noteq> Undefined" by (simp add: body_at_def)
  have ids: "issued_ids survey_run (loadMarks None) = [1, 2, 3, 4]"
    by (simp add: survey_run_def loadMarks_def create_mark_def post_marks_def delete_mark_def
        saveMarks_def env0_def body_at_def Let_def)
  show ?thesis
    using mark_ids_monotonic [of survey_run "loadMarks None" env0 "body_at 45.1 (-122.1)" env0]
      mark_ids_monotonic [of "[]" "run survey_run (loadMarks None)" env0 "body_at 45.1 (-122.1)" env0]
      h b ids by simp
qed



text \<open>
  C10. A creation with a horizontal accuracy of exactly 0 stores a mark whose accuracy
  is \<open>null\<close>; when latitude and longitude are numbers, this same mark is the answer and
  is what the open observers are sent.
\<close>

theorem zero_h_acc_stored_as_null:
  assumes "mb_h_acc b = Val 0"
    and "mb_latitude b \<noteq> Undefined" and "mb_longitude b \<noteq> Undefined"
  shows "\<exists>m. marks (fst (handle e (PostMark b) s)) = marks s @ [m] \<and> mk_h_acc m = Null \<and>
             (mb_latitude b = Null \<or> mb_longitude b = Null \<or>
                (fst (snd (handle e (PostMark b) s)) = MarkJson m \<and>
                 snd (snd (handle e (PostMark b) s)) =
                   map (\<lambda>c. (c, MarkCreate m)) (filter (\<lambda>c. readyState e c = 1) (clients s))))"
  using assms
  by (simp add: post_marks_def create_mark_def or_null_def broadcast_def Let_def)

text \<open>The mark made from \<open>zero_acc_body\<close>, with observers 1 and 3 open.\<close>

theorem zero_h_acc_stored_as_null_witness:
  "mb_h_acc zero_acc_body = Val 0 \<and> mb_latitude zero_acc_body \<noteq> Undefined \<and>
   mb_longitude zero_acc_body \<noteq> Undefined \<and>
   map mk_h_acc (marks (fst (handle env0 (PostMark zero_acc_body) three_clients))) = [Null] \<and>
   (\<exists>m. mk_h_acc m = Null \<and>
        handle env0 (PostMark zero_acc_body) three_clients =
          (fst (handle env0 (PostMark zero_acc_body) three_clients), MarkJson m,
           [(1, MarkCreate m), (3, MarkCreate m)]))"
proof -
  have h: "mb_h_acc zero_acc_body = Val 0" "mb_latitude zero_acc_body \<noteq> Undefined"
    "mb_longitude zero_acc_body \<noteq> Undefined"
    "mb_latitude zero_acc_body \<noteq> Null" "mb_longitude zero_acc_body \<noteq> Null"
    by (simp_all add: zero_acc_body_def)
  have c: "clients three_clients = [1, 2, 3]" "marks three_clients = []"
    by (simp_all add: three_clients_def loadMarks_def on_connection_def set_add_def)
  from zero_h_acc_stored_as_null [OF h(1-3), of env0 three_clients] h(4,5)
  obtain m where m: "marks (fst (handle env0 (PostMark zero_acc_body) three_clients)) = [m]"
    "mk_h_acc m = Null"
    "fst (snd (handle env0 (PostMark zero_acc_body) three_clients)) = MarkJson m"
    "snd (snd (handle env0 (PostMark zero_acc_body) three_clients)) =
       [(1, MarkCreate m), (3, MarkCreate m)]"
    by (auto simp: c env0_def)
  have "handle env0 (PostMark zero_acc_body) three_clients =
          (fst (handle env0 (PostMark zero_acc_body) three_clients), MarkJson m,
           [(1, MarkCreate m), (3, MarkCreate m)])"
    using m(3,4) by (simp add: prod_eq_iff)
  with m h show ?thesis by auto
qed

section \<open>Broadcast hub\<close>

lemma count_list_filter_distinct:
  "distinct cs \<Longrightarrow> count_list (filter P cs) c = (if c \<in> set cs \<and> P c then 1 else 0)"
  by (induction cs) auto

lemma broadcast_receivers:
  "map fst (broadcast e msg s) = filter (\<lambda>c. readyState e c = 1) (clients s)"
  by (simp add: broadcast_def comp_def)

lemma distinct_set_add: "distinct cs \<Longrightarrow> distinct (set_add ws cs)"
  by (simp add: set_add_def)

lemma handle_clients:
  "clients (fst (handle e r s)) =
     (case r of Connect ws \<Rightarrow> set_add ws (clients s) | Close ws \<Rightarrow> removeAll ws (clients s)
      | _ \<Rightarrow> clients s)"
  by (cases r)
     (auto simp: post_position_def post_marks_def delete_mark_def patch_mark_def clear_marks_def
        on_connection_def on_close_def create_mark_def Let_def split: option.split)

lemma handle_distinct: "distinct (clients s) \<Longrightarrow> distinct (clients (fst (handle e r s)))"
  unfolding handle_clients by (cases r) (simp_all add: distinct_set_add distinct_removeAll)

lemma run_distinct: "distinct (clients s) \<Longrightarrow> distinct (clients (run rs s))"
  by (induction rs arbitrary: s) (auto simp: handle_distinct)

text \<open>The tracked connections of a running server never hold a handle twice.\<close>

lemma reachable_clients_distinct: "distinct (clients (run rs (loadMarks d)))"
  by (rule run_distinct) (simp add: loadMarks_def)

lemma delete_mark_sends:
  "(fst (snd (delete_mark e pid s)) = NotFound \<and> snd (snd (delete_mark e pid s)) = []) \<or>
   (\<exists>i. pid = Some i \<and> fst (snd (delete_mark e pid s)) = Success \<and>
        snd (snd (delete_mark e pid s)) = broadcast e (MarkDelete i) s)"
  by (simp add: delete_mark_def Let_def broadcast_def split: option.split)

lemma patch_mark_sends:
  "(fst (snd (patch_mark e pid l s)) = NotFound \<and> snd (snd (patch_mark e pid l s)) = []) \<or>
   (\<exists>m. fst (snd (patch_mark e pid l s)) = MarkJson m \<and>
        snd (snd (patch_mark e pid l s)) = broadcast e (MarkUpdate m) s)"
  by (simp add: patch_mark_def Let_def broadcast_def split: option.split)

lemma post_marks_sends:
  "(fst (snd (post_marks e b s)) = BadRequest \<and> snd (snd (post_marks e b s)) = []) \<or>
   (fst (snd (post_marks e b s)) = TypeError \<and> snd (snd (post_marks e b s)) = []) \<or>
   (\<exists>m. fst (snd (post_marks e b s)) = MarkJson m \<and>
        snd (snd (post_marks e b s)) = broadcast e (MarkCreate m) s)"
  by (simp add: post_marks_def create_mark_def Let_def broadcast_def)

text \<open>
  C7. A broadcast reaches every tracked connection whose \<open>readyState\<close> is 1 exactly once
  and no other connection at all, every copy is the event itself, and their number is
  the number of open connections; it is a total function, so a connection that is not
  open costs nothing and raises nothing. What a position update, a clear, a creation, a
  deletion or a rename sends is one such broadcast, or nothing when the request is
  answered with an error.
\<close>

theorem fan_out_complete:
  assumes "distinct (clients s)"
  shows "(\<forall>c. count_list (map fst (broadcast e msg s)) c =
               (if c \<in> set (clients s) \<and> readyState e c = 1 then 1 else 0)) \<and>
         (\<forall>x\<in>set (broadcast e msg s). snd x = msg) \<and>
         length (broadcast e msg s) = card {c \<in> set (clients s). readyState e c = 1} \<and>
         snd (snd (handle e (PostPosition b) s)) =
           broadcast e (PositionMsg (roverState (fst (handle e (PostPosition b) s)))) s \<and>
         snd (snd (handle e ClearMarks s)) = broadcast e MarkClear s \<and>
         ((fst (snd (handle e (PostMark mb) s)) = BadRequest \<and>
             snd (snd (handle e (PostMark mb) s)) = []) \<or>
          (fst (snd (handle e (PostMark mb) s)) = TypeError \<and>
             snd (snd (handle e (PostMark mb) s)) = []) \<or>
          (\<exists>m. fst (snd (handle e (PostMark mb) s)) = MarkJson m \<and>
               snd (snd (handle e (PostMark mb) s)) = broadcast e (MarkCreate m) s)) \<and>
         ((fst (snd (handle e (DeleteMark pid) s)) = NotFound \<and>
             snd (snd (handle e (DeleteMark pid) s)) = []) \<or>
          (\<exists>i. pid = Some i \<and> fst (snd (handle e (DeleteMark pid) s)) = Success \<and>
               snd (snd (handle e (DeleteMark pid) s)) = broadcast e (MarkDelete i) s)) \<and>
         ((fst (snd (handle e (PatchMark pid l) s)) = NotFound \<and>
             snd (snd (handle e (PatchMark pid l) s)) = []) \<or>
          (\<exists>m. fst (snd (handle e (PatchMark pid l) s)) = MarkJson m \<and>
               snd (snd (handle e (PatchMark pid l) s)) = broadcast e (MarkUpdate m) s))"
proof -
  have once: "\<forall>c. count_list (map fst (broadcast e msg s)) c =
               (if c \<in> set (clients s) \<and> readyState e c = 1 then 1 else 0)"
    using assms by (simp add: broadcast_receivers count_list_filter_distinct)
  have same: "\<forall>x\<in>set (broadcast e msg s). snd x = msg"
    by (auto simp: broadcast_def)
  have "distinct (filter (\<lambda>c. readyState e c = 1) (clients s))"
    using assms by simp
  then have "card (set (filter (\<lambda>c. readyState e c = 1) (clients s))) =
             length (filter (\<lambda>c. readyState e c = 1) (clients s))"
    by (rule distinct_card)
  then have number: "length (broadcast e msg s) = card {c \<in> set (clients s). readyState e c = 1}"
    by (simp add: broadcast_def)
  have pos: "snd (snd (handle e (PostPosition b) s)) =
           broadcast e (PositionMsg (roverState (fst (handle e (PostPosition b) s)))) s"
    by (simp add: post_position_def Let_def broadcast_def)
  have clr: "snd (snd (handle e ClearMarks s)) = broadcast e MarkClear s"
    by (simp add: clear_marks_def Let_def broadcast_def)
  show ?thesis
    using once same number pos clr post_marks_sends [of e mb s] delete_mark_sends [of e pid s]
      patch_mark_sends [of e pid l s]
    by simp
qed

text \<open>Three tracked observers, the second closed: the first and the third get one copy.\<close>

theorem fan_out_complete_witness:
  "distinct (clients three_clients) \<and>
   clients three_clients = [1, 2, 3] \<and>
   broadcast env0 MarkClear three_clients = [(1, MarkClear), (3, MarkClear)] \<and>
   count_list (map fst (broadcast env0 MarkClear three_clients)) 1 = 1 \<and>
   count_list (map fst (broadcast env0 MarkClear three_clients)) 2 = 0 \<and>
   length (broadcast env0 MarkClear three_clients) = 2"
proof -
  have c: "clients three_clients = [1, 2, 3]"
    by (simp add: three_clients_def loadMarks_def on_connection_def set_add_def)
  then have d: "distinct (clients three_clients)" by simp
  have b: "broadcast env0 MarkClear three_clients = [(1, MarkClear), (3, MarkClear)]"
    by (simp add: broadcast_def c env0_def)
  have r: "readyState env0 (Suc 0) = Suc 0" "readyState env0 2 = 3" by (simp_all add: env0_def)
  have all: "\<forall>c. count_list (map fst (broadcast env0 MarkClear three_clients)) c =
               (if c \<in> set (clients three_clients) \<and> readyState env0 c = 1 then 1 else 0)"
    using fan_out_complete [OF d, of env0 MarkClear] by (rule conjunct1)
  have "count_list (map fst (broadcast env0 MarkClear three_clients)) 1 = 1"
    using all [rule_format, of 1] by (simp add: c r)
  moreover have "count_list (map fst (broadcast env0 MarkClear three_clients)) 2 = 0"
    using all [rule_format, of 2] by (simp add: c r)
  ultimately show ?thesis using c d b by simp
qed

text \<open>
  C8, as stated, fails: after a fix whose latitude is \<open>null\<close> has been ingested, and with
  no mark in the registry, a new observer is sent nothing at all, neither the position
  state nor a marks message.
\<close>

theorem connection_snapshot_counterexample:
  "rs_last_update (roverState (fst (handle env0 (PostPosition null_fix) (loadMarks None)))) =
     Val (iso_now env0) \<and>
   marks (fst (handle env0 (PostPosition null_fix) (loadMarks None))) = [] \<and>
   snd (snd (handle env0 (Connect 7) (fst (handle env0 (PostPosition null_fix) (loadMarks None))))) = []"
  by (simp add: post_position_def on_connection_def loadMarks_def null_fix_def absent_body_def
      Let_def)

text \<open>
  C8, amended. A new observer is sent, at once and to it alone, the position state when
  the stored latitude is not \<open>null\<close>, which is so after any fix whose latitude is not
  \<open>null\<close>, and then the whole mark collection when it is not empty.
\<close>

theorem connection_snapshot:
  "snd (snd (handle e (Connect ws) s)) =
     (if rs_latitude (roverState s) = Null then [] else [(ws, PositionMsg (roverState s))]) @
     (if marks s = [] then [] else [(ws, MarksMsg (marks s))]) \<and>
   (b_latitude b \<noteq> Null \<longrightarrow>
      (ws, PositionMsg (roverState (fst (handle e' (PostPosition b) s)))) \<in>
        set (snd (snd (handle e (Connect ws) (fst (handle e' (PostPosition b) s)))))) \<and>
   (marks s \<noteq> [] \<longrightarrow> (ws, MarksMsg (marks s)) \<in> set (snd (snd (handle e (Connect ws) s))))"
  by (simp add: on_connection_def post_position_def Let_def)

text \<open>After the scenario fix and with the marks 1, 3 and 4: the position, then the marks.\<close>

theorem connection_snapshot_witness:
  "b_latitude scenario_fix \<noteq> Null \<and>
   marks (run survey_run (loadMarks None)) \<noteq> [] \<and>
   snd (snd (handle env0 (Connect 7)
     (fst (handle env0 (PostPosition scenario_fix) (run survey_run (loadMarks None)))))) =
     [(7, PositionMsg (roverState
            (fst (handle env0 (PostPosition scenario_fix) (run survey_run (loadMarks None)))))),
      (7, MarksMsg (marks (run survey_run (loadMarks None))))]"
proof -
  let ?s = "run survey_run (loadMarks None)"
  let ?s1 = "fst (handle env0 (PostPosition scenario_fix) ?s)"
  have h1: "b_latitude scenario_fix \<noteq> Null" by (simp add: scenario_fix_def absent_body_def)
  have ids: "map mk_id (marks ?s) = [1, 3, 4]"
    by (simp add: survey_run_def loadMarks_def create_mark_def post_marks_def delete_mark_def
        saveMarks_def env0_def body_at_def Let_def)
  then have h2: "marks ?s \<noteq> []" by auto
  have lat: "rs_latitude (roverState ?s1) \<noteq> Null" and m: "marks ?s1 = marks ?s"
    using h1 by (simp_all add: post_position_def Let_def)
  show ?thesis
    using connection_snapshot [of env0 7 ?s1 scenario_fix env0] h1 h2 lat m by simp
qed

section \<open>Geometry engine\<close>




section \<open>Trail recorder\<close>

lemma pi_ge_three: "3 \<le> pi"
proof -
  have "sin (pi / 6) \<le> pi / 6" by (rule sin_x_le_x) simp
  then show ?thesis by (simp add: sin_30)
qed

lemma atan2_sin_cos:
  assumes "\<bar>t\<bar> < pi / 2"
  shows "atan2 \<bar>sin t\<bar> (cos t) = \<bar>t\<bar>"
proof -
  have c: "0 < cos t" using assms by (intro cos_gt_zero_pi) (simp_all add: abs_less_iff)
  have "arctan (\<bar>sin t\<bar> / cos t) = \<bar>t\<bar>"
  proof (cases "0 \<le> t")
    case True
    then have "0 \<le> sin t" using assms by (intro sin_ge_zero) simp_all
    then have "\<bar>sin t\<bar> / cos t = tan t" by (simp add: tan_def)
    moreover have "arctan (tan t) = t" using assms by (intro arctan_tan) (simp_all add: abs_less_iff)
    ultimately show ?thesis using True by simp
  next
    case False
    then have "0 \<le> sin (- t)" using assms by (intro sin_ge_zero) simp_all
    then have "\<bar>sin t\<bar> / cos t = tan (- t)" by (simp add: tan_def)
    moreover have "arctan (tan (- t)) = - t"
      using assms by (intro arctan_tan) (simp_all add: abs_less_iff)
    ultimately show ?thesis using False by simp
  qed
  with c show ?thesis by (simp add: atan2_def)
qed

lemma haversine_meridian:
  assumes "\<bar>lat2 - lat1\<bar> < 180"
  shows "haversineDistance lat1 lon lat2 lon = Some (6371000 * (\<bar>lat2 - lat1\<bar> * pi / 180))"
proof -
  define t where "t = (lat2 - lat1) * pi / 180 / 2"
  have "\<bar>t\<bar> = \<bar>lat2 - lat1\<bar> * pi / 360" by (simp add: t_def abs_mult)
  also have "\<dots> < 180 * pi / 360" using assms by simp
  finally have small: "\<bar>t\<bar> < pi / 2" by simp
  have c: "0 < cos t" using small by (intro cos_gt_zero_pi) (simp_all add: abs_less_iff)
  define a where "a = sin t * sin t"
  have a: "a = (sin t)\<^sup>2" by (simp add: a_def power2_eq_square)
  have a1: "1 - a = (cos t)\<^sup>2" by (simp add: a cos_squared_eq)
  have "0 \<le> a" by (simp add: a)
  moreover have "0 \<le> 1 - a" by (simp only: a1 zero_le_power2)
  ultimately have rng: "\<not> (a < 0 \<or> 1 - a < 0)" by (simp add: not_less)
  have sq1: "sqrt a = \<bar>sin t\<bar>" by (simp add: a)
  have "sqrt (1 - a) = \<bar>cos t\<bar>" by (simp only: a1 real_sqrt_abs)
  then have sq2: "sqrt (1 - a) = cos t" using c by simp
  note sq = sq1 sq2
  have "haversineDistance lat1 lon lat2 lon = Some (6371000 * 2 * atan2 (sqrt a) (sqrt (1 - a)))"
    using rng unfolding haversineDistance_def Let_def a_def t_def by simp
  also have "\<dots> = Some (6371000 * 2 * \<bar>t\<bar>)" by (simp add: sq atan2_sin_cos [OF small])
  also have "\<dots> = Some (6371000 * (\<bar>lat2 - lat1\<bar> * pi / 180))"
    by (simp add: t_def abs_mult)
  finally show ?thesis .
qed

lemma too_close_step:
  assumes "\<bar>la2 - la1\<bar> \<le> 3 / 1000000"
  shows "too_close \<lparr>latitude = la1, longitude = lo\<rparr> \<lparr>latitude = la2, longitude = lo\<rparr> (1 / 2)"
proof -
  have h: "haversineDistance la1 lo la2 lo = Some (6371000 * (\<bar>la2 - la1\<bar> * pi / 180))"
    using assms by (intro haversine_meridian) simp
  have "\<bar>la2 - la1\<bar> * pi \<le> 3 / 1000000 * 4"
    using assms pi_less_4 by (intro mult_mono) simp_all
  then have "6371000 * (\<bar>la2 - la1\<bar> * pi / 180) < 1 / 2" by linarith
  with h show ?thesis by (simp add: too_close_def)
qed

lemma not_too_close_step:
  assumes "5 / 1000000 \<le> \<bar>la2 - la1\<bar>" and "\<bar>la2 - la1\<bar> < 180"
  shows "\<not> too_close \<lparr>latitude = la1, longitude = lo\<rparr> \<lparr>latitude = la2, longitude = lo\<rparr> (1 / 2)"
proof -
  have h: "haversineDistance la1 lo la2 lo = Some (6371000 * (\<bar>la2 - la1\<bar> * pi / 180))"
    using assms by (intro haversine_meridian) simp
  have "5 / 1000000 * 3 \<le> \<bar>la2 - la1\<bar> * pi"
    using assms pi_ge_three by (intro mult_mono) simp_all
  then have "1 / 2 \<le> 6371000 * (\<bar>la2 - la1\<bar> * pi / 180)" by linarith
  with h show ?thesis by (simp add: too_close_def)
qed

lemma creep_piloting: "piloting (trails (replay creep (new_dashboard None))) = [(-122, 45)]"
  by (simp add: creep_def new_dashboard_def no_trails_def updateDashboard_def recordTrailPoint_def
      rtk_fix_def initial_roverState_def Let_def too_close_step)

lemma sway_piloting:
  "piloting (trails (replay sway (new_dashboard None))) = [(-122, 45), (-122, 44.999997)]"
  by (simp add: sway_def new_dashboard_def no_trails_def updateDashboard_def recordTrailPoint_def
      rtk_fix_def initial_roverState_def Let_def too_close_step not_too_close_step)

lemma creep_gap:
  "haversineDistance 45 (-122) 45.000006 (-122) = Some (6371000 * (6 / 1000000 * pi / 180)) \<and>
   minTrailDistance (new_dashboard None) \<le> 6371000 * (6 / 1000000 * pi / 180)"
proof -
  have "haversineDistance 45 (-122) 45.000006 (-122) =
          Some (6371000 * (\<bar>45.000006 - 45\<bar> * pi / 180))"
    by (rule haversine_meridian) simp
  then have d: "haversineDistance 45 (-122) 45.000006 (-122) =
          Some (6371000 * (6 / 1000000 * pi / 180))" by simp
  have "minTrailDistance (new_dashboard None) \<le> 6371000 * (6 / 1000000 * pi / 180)"
    using pi_ge_three by (simp add: new_dashboard_def)
  with d show ?thesis by simp
qed

lemma sway_gap:
  "haversineDistance 45 (-122) 44.999997 (-122) = Some (6371000 * (3 / 1000000 * pi / 180)) \<and>
   6371000 * (3 / 1000000 * pi / 180) < minTrailDistance (new_dashboard None)"
proof -
  have "haversineDistance 45 (-122) 44.999997 (-122) =
          Some (6371000 * (\<bar>44.999997 - 45\<bar> * pi / 180))"
    by (rule haversine_meridian) simp
  then have d: "haversineDistance 45 (-122) 44.999997 (-122) =
          Some (6371000 * (3 / 1000000 * pi / 180))" by simp
  have "6371000 * (3 / 1000000 * pi / 180) < minTrailDistance (new_dashboard None)"
    using pi_less_4 by (simp add: new_dashboard_def)
  with d show ?thesis by simp
qed

text \<open>
  C1. The distance check of the recorder is made against the position of the previous
  fix, not against the last admitted point. With fixes a third of a metre apart, the
  third fix of \<open>sway\<close> is within \<open>minTrailDistance\<close> of the only admitted point, at
  \<open>6371000 * 0.000003 * pi / 180\<close> metres, and is admitted: the piloting sequence grows
  to two points closer than \<open>minTrailDistance\<close>. The third fix of \<open>creep\<close> is at least
  \<open>minTrailDistance\<close> from the only admitted point, at twice that distance, and is
  discarded.
\<close>

theorem decimation_reference_is_previous_fix:
  "piloting (trails (replay sway (new_dashboard None))) = [(-122, 45), (-122, 44.999997)] \<and>
   haversineDistance 45 (-122) 44.999997 (-122) = Some (6371000 * (3 / 1000000 * pi / 180)) \<and>
   6371000 * (3 / 1000000 * pi / 180) < minTrailDistance (new_dashboard None) \<and>
   piloting (trails (replay creep (new_dashboard None))) = [(-122, 45)] \<and>
   haversineDistance 45 (-122) 45.000006 (-122) = Some (6371000 * (6 / 1000000 * pi / 180)) \<and>
   minTrailDistance (new_dashboard None) \<le> 6371000 * (6 / 1000000 * pi / 180)"
  using creep_piloting sway_piloting creep_gap sway_gap by blast

lemma recordTrailPoint_cases:
  "trails (recordTrailPoint prevPos st) = trails st \<or>
   (\<exists>p q z. piloting (trails (recordTrailPoint prevPos st)) = piloting (trails st) @ [p] \<and>
            suction (trails (recordTrailPoint prevPos st)) = suction (trails st) @ [q] \<and>
            tailings (trails (recordTrailPoint prevPos st)) = tailings (trails st) @ [z])"
  by (simp add: recordTrailPoint_def split: option.split)

lemma message_cases:
  "trails (react (PositionMessage data) st) = trails st \<or>
   (\<exists>p q z. piloting (trails (react (PositionMessage data) st)) = piloting (trails st) @ [p] \<and>
            suction (trails (react (PositionMessage data) st)) = suction (trails st) @ [q] \<and>
            tailings (trails (react (PositionMessage data) st)) = tailings (trails st) @ [z])"
  by (auto simp: updateDashboard_def recordTrailPoint_def Let_def
      split: if_splits js.splits option.splits)

lemma react_balanced: "balanced st \<Longrightarrow> balanced (react ev st)"
proof (cases ev)
  case (PositionMessage data)
  assume "balanced st"
  with message_cases [of data st] PositionMessage show ?thesis
    by (auto simp: balanced_def)
qed (simp_all add: balanced_def clearTrails_def location_change_def split: locationMode.split)

lemma replay_balanced: "balanced st \<Longrightarrow> balanced (replay evs st)"
  by (induction evs arbitrary: st) (simp_all add: react_balanced)

text \<open>
  C9. A position message either leaves the three trail sequences as they are or appends
  exactly one element to each of them; the clear empties all three; so the three
  lengths, equal in a new dashboard, stay equal through every sequence of position
  messages, heading and location changes and clears.
\<close>

theorem trails_advance_together:
  "(trails (react (PositionMessage data) st) = trails st \<or>
    (\<exists>p q z. piloting (trails (react (PositionMessage data) st)) = piloting (trails st) @ [p] \<and>
             suction (trails (react (PositionMessage data) st)) = suction (trails st) @ [q] \<and>
             tailings (trails (react (PositionMessage data) st)) = tailings (trails st) @ [z])) \<and>
   trails (react ClearTrails st) = \<lparr>piloting = [], suction = [], tailings = []\<rparr> \<and>
   balanced (new_dashboard None) \<and>
   (balanced st \<longrightarrow> balanced (replay evs st))"
  using message_cases [of data st] replay_balanced [of st evs]
  by (simp add: clearTrails_def balanced_def new_dashboard_def no_trails_def)

text \<open>
  The first fix is recorded in all three sequences; the lengths agree after a session
  with fixes, a heading change, a switch to the test location and back, and a clear.
\<close>

theorem trails_advance_together_witness:
  "balanced (new_dashboard None) \<and>
   length (piloting (trails (react (PositionMessage (rtk_fix 45)) (new_dashboard None)))) = 1 \<and>
   length (suction (trails (react (PositionMessage (rtk_fix 45)) (new_dashboard None)))) = 1 \<and>
   length (tailings (trails (react (PositionMessage (rtk_fix 45)) (new_dashboard None)))) = 1 \<and>
   length (piloting (trails (replay session (new_dashboard None)))) =
     length (suction (trails (replay session (new_dashboard None)))) \<and>
   length (suction (trails (replay session (new_dashboard None)))) =
     length (tailings (trails (replay session (new_dashboard None))))"
proof -
  have b: "balanced (new_dashboard None)"
    by (simp add: balanced_def new_dashboard_def no_trails_def)
  have one: "trails (react (PositionMessage (rtk_fix 45)) (new_dashboard None)) =
      \<lparr>piloting = [(-122, 45)], suction = [getSuctionTipPosition 45 (-122) 0],
       tailings = [generateTailingsZoneGeoJSON 45 (-122) 0]\<rparr>"
    by (simp add: new_dashboard_def no_trails_def updateDashboard_def recordTrailPoint_def
        rtk_fix_def initial_roverState_def Let_def)
  have len: "length (piloting (trails (react (PositionMessage (rtk_fix 45)) (new_dashboard None)))) = 1"
    "length (suction (trails (react (PositionMessage (rtk_fix 45)) (new_dashboard None)))) = 1"
    "length (tailings (trails (react (PositionMessage (rtk_fix 45)) (new_dashboard None)))) = 1"
    unfolding one by simp_all
  from trails_advance_together [of "rtk_fix 45" "new_dashboard None" session] b
  have "balanced (replay session (new_dashboard None))" by blast
  then have "length (piloting (trails (replay session (new_dashboard None)))) =
     length (suction (trails (replay session (new_dashboard None)))) \<and>
   length (suction (trails (replay session (new_dashboard None)))) =
     length (tailings (trails (replay session (new_dashboard None))))"
    by (simp only: balanced_def)
  with b len show ?thesis by blast
qed

end
